theory Spec2Isabelle
  imports Complex_Main "HOL-Library.Finite_Map" "HOL-Library.Sublist"
begin

section \<open>Python values\<close>

text \<open>
  The data access object of \<^verbatim>\<open>opportunity/dao.py\<close> works on untyped dictionaries: an
  opportunity is a dict loaded from the document store, a patch is the \<^verbatim>\<open>**kwargs\<close> dict
  of \<^verbatim>\<open>update_opportunity\<close>, a query is a dict handed to the store. All of them are
  values of one type. A float is a finite rational or one of the three special values;
  a dict is a finite map, so two dicts are equal when they hold the same items.
  \<open>VTime\<close> is a \<^verbatim>\<open>datetime\<close>, \<open>VOid\<close> a bson \<^verbatim>\<open>ObjectId\<close>, \<open>VRegex\<close> a pattern compiled
  with \<^verbatim>\<open>re.IGNORECASE\<close>.
\<close>

datatype pyfloat = Finite rat | PosInf | NegInf | NaN

datatype val =
    VNone
  | VBool bool
  | VInt int
  | VFloat pyfloat
  | VStr string
  | VTime int
  | VOid string
  | VRegex string
  | VList "val list"
  | VDict "(string, val) fmap"

type_synonym doc = "(string, val) fmap"

type_synonym oid = string

text \<open>The exceptions the modelled functions raise. The three \<^verbatim>\<open>Exception(...)\<close> of
  \<^verbatim>\<open>update_opportunity\<close> are told apart by their message.\<close>

datatype error =
    NoDataProvided
  | CannotChangeDealer
  | DealNumberAlreadyAssigned
  | InvalidQuery
  | TypeError
  | AttributeError
  | KeyError
  | ValueError
  | OverflowError
  | IndexError
  | InvalidId
  | ReError

text \<open>\<^verbatim>\<open>bool(v)\<close>: the truth value Python gives a value in \<^verbatim>\<open>if v\<close>.\<close>

fun truthy :: "val \<Rightarrow> bool" where
  "truthy VNone = False"
| "truthy (VBool b) = b"
| "truthy (VInt i) = (i \<noteq> 0)"
| "truthy (VFloat f) = (f \<noteq> Finite 0)"
| "truthy (VStr s) = (s \<noteq> [])"
| "truthy (VTime t) = True"
| "truthy (VOid s) = True"
| "truthy (VRegex s) = True"
| "truthy (VList xs) = (xs \<noteq> [])"
| "truthy (VDict d) = (d \<noteq> fmempty)"

text \<open>\<^verbatim>\<open>a == b\<close>: booleans, integers and floats compare by their numeric value (a NaN is
  equal to nothing), every other value compares with values of its own kind.\<close>

fun num_of :: "val \<Rightarrow> pyfloat option" where
  "num_of (VBool b) = Some (Finite (if b then 1 else 0))"
| "num_of (VInt i) = Some (Finite (of_int i))"
| "num_of (VFloat f) = Some f"
| "num_of v = None"

definition py_eq :: "val \<Rightarrow> val \<Rightarrow> bool" where
  "py_eq a b =
     (case (num_of a, num_of b) of
        (Some x, Some y) \<Rightarrow> x = y \<and> x \<noteq> NaN
      | (None, None) \<Rightarrow> a = b
      | _ \<Rightarrow> False)"

text \<open>\<^verbatim>\<open>d.get(k)\<close> and \<^verbatim>\<open>d.get(k, default)\<close>.\<close>

definition dict_get :: "doc \<Rightarrow> string \<Rightarrow> val" where
  "dict_get d k = (case fmlookup d k of None \<Rightarrow> VNone | Some v \<Rightarrow> v)"

definition dict_get_default :: "doc \<Rightarrow> string \<Rightarrow> val \<Rightarrow> val" where
  "dict_get_default d k dflt = (case fmlookup d k of None \<Rightarrow> dflt | Some v \<Rightarrow> v)"

text \<open>\<^verbatim>\<open>int(f)\<close> of a float truncates towards zero and raises on NaN and the infinities.\<close>

definition trunc :: "rat \<Rightarrow> int" where
  "trunc q = (if 0 \<le> q then \<lfloor>q\<rfloor> else \<lceil>q\<rceil>)"

fun int_of_float :: "pyfloat \<Rightarrow> error + val" where
  "int_of_float (Finite q) = Inr (VInt (trunc q))"
| "int_of_float NaN = Inl ValueError"
| "int_of_float PosInf = Inl OverflowError"
| "int_of_float NegInf = Inl OverflowError"

text \<open>\<^verbatim>\<open>str(n)\<close> of an integer: its decimal digits, with a minus sign when negative.\<close>

definition digit :: "nat \<Rightarrow> char" where
  "digit n = ''0123456789'' ! n"

fun str_nat :: "nat \<Rightarrow> string" where
  "str_nat n = (if n < 10 then [digit n] else str_nat (n div 10) @ [digit (n mod 10)])"

declare str_nat.simps [simp del]

definition str_int :: "int \<Rightarrow> string" where
  "str_int i = (if i < 0 then CHR ''-'' # str_nat (nat (- i)) else str_nat (nat i))"

section \<open>What the module imports\<close>

text \<open>
  \<^verbatim>\<open>dao.py\<close> uses code that is not part of the three source files: the status constants,
  \<^verbatim>\<open>status_name\<close> and \<^verbatim>\<open>assignee_roles\<close> of \<^verbatim>\<open>OpportunityModel\<close>, the helpers
  \<^verbatim>\<open>reporting_period\<close>, \<^verbatim>\<open>get_date_filter\<close> and \<^verbatim>\<open>dictdelta\<close> of
  \<^verbatim>\<open>market_crm.utils.helper\<close>, and the library functions \<^verbatim>\<open>shlex.split\<close>,
  \<^verbatim>\<open>re.compile\<close> and \<^verbatim>\<open>ObjectId\<close>. They are parameters of the model, collected in one
  record. \<open>reporting_period\<close> takes its keyword arguments as a dict and may raise;
  \<open>shlex_split\<close> is \<open>None\<close> where \<^verbatim>\<open>shlex.split\<close> raises \<^verbatim>\<open>ValueError\<close> or
  \<^verbatim>\<open>UnicodeEncodeError\<close>; \<open>re_compile\<close> is \<open>None\<close> where \<^verbatim>\<open>re.compile\<close> raises;
  \<open>object_id\<close> is \<open>None\<close> where \<^verbatim>\<open>ObjectId\<close> rejects a string and \<open>new_object_id\<close> is
  the identifier \<^verbatim>\<open>ObjectId(None)\<close> generates; \<open>repr\<close> is \<^verbatim>\<open>str\<close> on
  the values whose text the model does not compute; \<open>dict_keys\<close> is the order in which
  the interpreter iterates over the keys of a dict.
\<close>

record env =
  STATUS_ALL :: "int list"
  STATUS_PENDING :: int
  STATUS_FI :: int
  status_name :: "doc \<Rightarrow> val"
  assignee_roles :: "string list"
  reporting_period :: "doc \<Rightarrow> error + val"
  get_date_filter :: "val \<Rightarrow> val \<Rightarrow> val"
  dictdelta :: "doc \<Rightarrow> doc \<Rightarrow> val"
  shlex_split :: "string \<Rightarrow> string list option"
  re_compile :: "string \<Rightarrow> val option"
  object_id :: "string \<Rightarrow> oid option"
  new_object_id :: oid
  repr :: "val \<Rightarrow> string"
  dict_keys :: "doc \<Rightarrow> string list"

text \<open>\<^verbatim>\<open>str(v)\<close>, also what \<^verbatim>\<open>'{}'.format(v)\<close> inserts.\<close>

fun py_str :: "env \<Rightarrow> val \<Rightarrow> string" where
  "py_str e (VInt i) = str_int i"
| "py_str e (VStr s) = s"
| "py_str e VNone = ''None''"
| "py_str e (VBool b) = (if b then ''True'' else ''False'')"
| "py_str e v = repr e v"

text \<open>The readings of \<^verbatim>\<open>datetime.utcnow()\<close> during one call of \<^verbatim>\<open>update_opportunity\<close>, in
  the order of the source: the default of \<^verbatim>\<open>status_date_change\<close>, the year and the month
  of the reporting period, and the \<^verbatim>\<open>updated\<close> stamp.\<close>

record clock =
  now_status :: int
  now_year :: int
  now_month :: int
  now_updated :: int

section \<open>The store and the signals\<close>

text \<open>
  The collection maps the identifier of an opportunity to its document. Identifiers
  reach the data access object as \<^verbatim>\<open>ObjectId\<close> values (the routes convert them), which are
  always true in a condition. A signal that is sent is recorded, with the opportunity as
  it is at that moment.
\<close>

datatype event =
    OpportunityCreated doc
  | OpportunityUpdated doc val
  | OpportunityStatusUpdated doc val
  | OpportunitySubStatusUpdated doc
  | OpportunityAssignment doc doc
  | OpportunityDeleted doc

record state =
  store :: "oid \<rightharpoonup> doc"
  events :: "event list"

definition send :: "event \<Rightarrow> state \<Rightarrow> state" where
  "send ev st = st\<lparr>events := events st @ [ev]\<rparr>"

text \<open>\<^verbatim>\<open>get_opportunity\<close>: the document with this identifier, or \<^verbatim>\<open>None\<close>.\<close>

definition get_opportunity :: "state \<Rightarrow> oid \<Rightarrow> doc option" where
  "get_opportunity st i = store st i"

text \<open>\<^verbatim>\<open>self.opportunities.update(match, {"$set": dict(opportunity)})\<close>: the fields of the
  stored document are set to those of \<open>opportunity\<close>; no document, no change.\<close>

definition store_set :: "oid \<Rightarrow> doc \<Rightarrow> state \<Rightarrow> state" where
  "store_set i opportunity st =
     (case store st i of
        None \<Rightarrow> st
      | Some stored \<Rightarrow> st\<lparr>store := (store st)(i \<mapsto> stored ++\<^sub>f opportunity)\<rparr>)"

section \<open>update_opportunity\<close>

text \<open>Lines 434 to 465: the status of the patch is not \<^verbatim>\<open>None\<close> and differs from the
  stored one.\<close>

definition status_changes :: "doc \<Rightarrow> doc \<Rightarrow> bool" where
  "status_changes opportunity kwargs =
     (dict_get kwargs ''status'' \<noteq> VNone \<and>
      \<not> py_eq (dict_get kwargs ''status'') (dict_get opportunity ''status''))"

definition coerce_status :: "val \<Rightarrow> error + val" where
  "coerce_status s = (case s of VFloat f \<Rightarrow> int_of_float f | _ \<Rightarrow> Inr s)"

text \<open>Lines 443 to 456: the new status is stamped in \<^verbatim>\<open>last_status_change\<close>, and FI is
  stamped with it when the new status is PENDING and FI has no date.\<close>

definition stamp_status :: "env \<Rightarrow> val \<Rightarrow> val \<Rightarrow> doc \<Rightarrow> error + doc" where
  "stamp_status e status status_date_change opportunity =
     (case dict_get_default opportunity ''last_status_change'' (VDict fmempty) of
        VDict last_status_change \<Rightarrow>
          let lsc1 = fmupd (py_str e status) status_date_change last_status_change;
              is_pending = (py_str e status = py_str e (VInt (STATUS_PENDING e)));
              has_fi_date = truthy (dict_get lsc1 (py_str e (VInt (STATUS_FI e))));
              lsc2 = (if is_pending \<and> \<not> has_fi_date
                      then fmupd (py_str e (VInt (STATUS_FI e))) status_date_change lsc1
                      else lsc1)
          in Inr (fmupd ''last_status_change'' (VDict lsc2) opportunity)
      | _ \<Rightarrow> Inl TypeError)"

text \<open>Lines 459 to 461: a status change sets the reporting period of the patch from the
  clock unless the patch brings one.\<close>

definition default_period :: "env \<Rightarrow> clock \<Rightarrow> doc \<Rightarrow> error + doc" where
  "default_period e clk kwargs =
     (if dict_get kwargs ''reporting_period'' = VNone
      then (case reporting_period e
                   (fmap_of_list [(''year'', VInt (now_year clk)), (''month'', VInt (now_month clk))]) of
              Inl err \<Rightarrow> Inl err
            | Inr r \<Rightarrow> Inr (fmupd ''reporting_period'' r kwargs))
      else Inr kwargs)"

text \<open>The whole status block: the opportunity and the patch after it, and whether the
  status changed.\<close>

definition status_phase :: "env \<Rightarrow> clock \<Rightarrow> val \<Rightarrow> doc \<Rightarrow> doc \<Rightarrow> error + (doc \<times> doc \<times> bool)" where
  "status_phase e clk status_date_change opportunity kwargs =
     (if status_changes opportunity kwargs then
        let sdc = (if status_date_change = VNone then VTime (now_status clk) else status_date_change)
        in case coerce_status (dict_get kwargs ''status'') of
             Inl err \<Rightarrow> Inl err
           | Inr s \<Rightarrow>
               let kw1 = fmupd ''status'' s kwargs
               in (case stamp_status e s sdc opportunity of
                     Inl err \<Rightarrow> Inl err
                   | Inr opp1 \<Rightarrow>
                       (case default_period e clk kw1 of
                          Inl err \<Rightarrow> Inl err
                        | Inr kw2 \<Rightarrow> Inr (opp1, kw2, True)))
      else Inr (opportunity, kwargs, False))"

text \<open>Lines 468 to 472: the assignment signal is sent when exactly one of the role
  fields is a key of the patch.\<close>

definition assignee_keys :: "env \<Rightarrow> doc \<Rightarrow> string list" where
  "assignee_keys e kwargs = filter (\<lambda>k. k |\<in>| fmdom kwargs) (remdups (assignee_roles e))"

definition assignment_signal :: "env \<Rightarrow> doc \<Rightarrow> doc \<Rightarrow> state \<Rightarrow> state" where
  "assignment_signal e opportunity kwargs st =
     (case assignee_keys e kwargs of
        [k] \<Rightarrow> send (OpportunityAssignment opportunity (fmupd k (dict_get kwargs k) fmempty)) st
      | _ \<Rightarrow> st)"

text \<open>Lines 475 to 479, the dealer lock: whether the exception is raised. The three
  conditions are evaluated in the order of the source, so a \<^verbatim>\<open>dms_deal\<close> that is no dict
  and a missing \<^verbatim>\<open>dealer_id\<close> raise on their own.\<close>

definition dealer_locked :: "doc \<Rightarrow> doc \<Rightarrow> error + bool" where
  "dealer_locked opportunity kwargs =
     (case fmlookup kwargs ''dealer_id'' of
        None \<Rightarrow> Inr False
      | Some new_dealer \<Rightarrow>
          (case dict_get_default opportunity ''dms_deal'' (VDict fmempty) of
             VDict dms_deal \<Rightarrow>
               if truthy (dict_get dms_deal ''deal_number'') then
                 (case fmlookup opportunity ''dealer_id'' of
                    None \<Rightarrow> Inl KeyError
                  | Some old_dealer \<Rightarrow> Inr (\<not> py_eq new_dealer old_dealer))
               else Inr False
           | _ \<Rightarrow> Inl AttributeError))"

text \<open>Lines 482 to 489: \<^verbatim>\<open>deal_number\<close> is taken out of the patch; a true one is written
  into \<^verbatim>\<open>dms_deal\<close> unless another one is there.\<close>

definition set_deal_number :: "doc \<Rightarrow> doc \<Rightarrow> error + (doc \<times> doc)" where
  "set_deal_number opportunity kwargs =
     (let deal_number = dict_get kwargs ''deal_number'';
          kw1 = fmdrop ''deal_number'' kwargs
      in if truthy deal_number then
           (case dict_get_default opportunity ''dms_deal'' (VDict fmempty) of
              VDict dms_deal \<Rightarrow>
                if truthy (dict_get dms_deal ''deal_number'') \<and>
                   \<not> py_eq (dict_get dms_deal ''deal_number'') deal_number
                then Inl DealNumberAlreadyAssigned
                else Inr (fmupd ''dms_deal'' (VDict (fmupd ''deal_number'' deal_number dms_deal)) opportunity,
                          kw1)
            | _ \<Rightarrow> Inl AttributeError)
         else Inr (opportunity, kw1))"

text \<open>Lines 491 to 493: the reporting period of the patch is passed to the helper as
  keyword arguments, which needs a dict.\<close>

definition set_reporting_period :: "env \<Rightarrow> doc \<Rightarrow> doc \<Rightarrow> error + doc" where
  "set_reporting_period e opportunity kwargs =
     (if truthy (dict_get kwargs ''reporting_period'') then
        (case dict_get kwargs ''reporting_period'' of
           VDict period \<Rightarrow>
             (case reporting_period e period of
                Inl err \<Rightarrow> Inl err
              | Inr r \<Rightarrow> Inr (fmupd ''reporting_period'' r opportunity))
         | _ \<Rightarrow> Inl TypeError)
      else Inr opportunity)"

text \<open>Lines 495 and 496.\<close>

definition stamp_updated :: "clock \<Rightarrow> doc \<Rightarrow> doc \<Rightarrow> doc" where
  "stamp_updated clk opportunity kwargs =
     (if \<not> truthy (dict_get kwargs ''updated'')
      then fmupd ''updated'' (VTime (now_updated clk)) opportunity
      else opportunity)"

text \<open>Lines 498 to 517: the patch is merged into the opportunity, the result is written
  to the store and the signals are sent.\<close>

definition merge_and_persist ::
  "env \<Rightarrow> oid \<Rightarrow> val \<Rightarrow> bool \<Rightarrow> doc \<Rightarrow> doc \<Rightarrow> state \<Rightarrow> state \<times> doc" where
  "merge_and_persist e i old_status_name updated_status opportunity kwargs st =
     (let old_sub_status = dict_get_default opportunity ''sub_status'' (VStr []);
          delta = dictdelta e opportunity kwargs;
          opp1 = opportunity ++\<^sub>f kwargs;
          st1 = store_set i opp1 st;
          st2 = send (OpportunityUpdated opp1 delta) st1;
          st3 = (if updated_status then send (OpportunityStatusUpdated opp1 old_status_name) st2 else st2);
          st4 = (if \<not> py_eq old_sub_status (dict_get_default opp1 ''sub_status'' (VStr []))
                 then send (OpportunitySubStatusUpdated opp1) st3 else st3)
      in (st4, opp1))"

text \<open>\<^verbatim>\<open>update_opportunity(id, status_date_change=None, **kwargs)\<close>. The result is the
  state after the call, with the exception raised or the opportunity returned. An
  identifier that is not in the store makes \<^verbatim>\<open>get_opportunity\<close> return \<^verbatim>\<open>None\<close>, on which
  the first attribute access raises.\<close>

definition update_opportunity ::
  "env \<Rightarrow> clock \<Rightarrow> state \<Rightarrow> oid \<Rightarrow> val \<Rightarrow> doc \<Rightarrow> state \<times> (error + doc)" where
  "update_opportunity e clk st i status_date_change kwargs =
     (if kwargs = fmempty then (st, Inl NoDataProvided)
      else case get_opportunity st i of
        None \<Rightarrow> (st, Inl AttributeError)
      | Some opportunity \<Rightarrow>
          (case status_phase e clk status_date_change opportunity kwargs of
             Inl err \<Rightarrow> (st, Inl err)
           | Inr (opp1, kw1, updated_status) \<Rightarrow>
               let st1 = assignment_signal e opp1 kw1 st
               in (case dealer_locked opp1 kw1 of
                     Inl err \<Rightarrow> (st1, Inl err)
                   | Inr True \<Rightarrow> (st1, Inl CannotChangeDealer)
                   | Inr False \<Rightarrow>
                       (case set_deal_number opp1 kw1 of
                          Inl err \<Rightarrow> (st1, Inl err)
                        | Inr (opp2, kw2) \<Rightarrow>
                            (case set_reporting_period e opp2 kw2 of
                               Inl err \<Rightarrow> (st1, Inl err)
                             | Inr opp3 \<Rightarrow>
                                 (case merge_and_persist e i (status_name e opportunity) updated_status
                                         (stamp_updated clk opp3 kw2) kw2 st1 of
                                    (st2, opp4) \<Rightarrow> (st2, Inr opp4)))))))"

section \<open>make_query\<close>

text \<open>
  \<^verbatim>\<open>make_query\<close> goes through \<^verbatim>\<open>filters.items()\<close>, here the list of the items in the order
  of the iteration, and appends the clauses of each filter to \<^verbatim>\<open>qry['$and']\<close>. A filter
  value of a shape on which the source raises gives the exception.
\<close>

definition dict1 :: "string \<Rightarrow> val \<Rightarrow> val" where
  "dict1 k v = VDict (fmupd k v fmempty)"

text \<open>\<^verbatim>\<open>filter_value.get(k)\<close>: only a dict has \<^verbatim>\<open>get\<close>.\<close>

definition val_get :: "val \<Rightarrow> string \<Rightarrow> error + val" where
  "val_get v k = (case v of VDict d \<Rightarrow> Inr (dict_get d k) | _ \<Rightarrow> Inl AttributeError)"

text \<open>\<^verbatim>\<open>'literal' in v\<close>: membership in a list, substring of a string, key of a dict.\<close>

definition str_in :: "string \<Rightarrow> val \<Rightarrow> error + bool" where
  "str_in s v =
     (case v of
        VList xs \<Rightarrow> Inr (VStr s \<in> set xs)
      | VStr t \<Rightarrow> Inr (sublist s t)
      | VDict d \<Rightarrow> Inr (s |\<in>| fmdom d)
      | _ \<Rightarrow> Inl TypeError)"

definition date_range :: "env \<Rightarrow> val \<Rightarrow> error + val" where
  "date_range e filter_value =
     (case val_get filter_value ''date_from'' of
        Inl err \<Rightarrow> Inl err
      | Inr start_date \<Rightarrow>
          (case val_get filter_value ''date_to'' of
             Inl err \<Rightarrow> Inl err
           | Inr end_date \<Rightarrow> Inr (get_date_filter e start_date end_date)))"

text \<open>\<^verbatim>\<open>s.split(c)\<close> for a separator of one character.\<close>

fun split_on :: "char \<Rightarrow> string \<Rightarrow> string list" where
  "split_on c [] = [[]]"
| "split_on c (x # xs) =
     (if x = c then [] # split_on c xs
      else (case split_on c xs of w # ws \<Rightarrow> (x # w) # ws | [] \<Rightarrow> [[x]]))"

text \<open>\<^verbatim>\<open>ObjectId(v)\<close>: an identifier is copied, a string is parsed, \<^verbatim>\<open>None\<close> gives a new
  identifier, anything else is a \<^verbatim>\<open>TypeError\<close>.\<close>

fun ObjectId :: "env \<Rightarrow> val \<Rightarrow> error + val" where
  "ObjectId e (VOid s) = Inr (VOid s)"
| "ObjectId e (VStr s) = (case object_id e s of None \<Rightarrow> Inl InvalidId | Some i \<Rightarrow> Inr (VOid i))"
| "ObjectId e VNone = Inr (VOid (new_object_id e))"
| "ObjectId e v = Inl TypeError"

text \<open>\<^verbatim>\<open>map(f, xs)\<close> of Python 2, which is eager: the first exception ends it.\<close>

fun map_err :: "('a \<Rightarrow> error + 'b) \<Rightarrow> 'a list \<Rightarrow> error + 'b list" where
  "map_err f [] = Inr []"
| "map_err f (x # xs) =
     (case f x of
        Inl err \<Rightarrow> Inl err
      | Inr y \<Rightarrow> (case map_err f xs of Inl err \<Rightarrow> Inl err | Inr ys \<Rightarrow> Inr (y # ys)))"

text \<open>The elements an iteration over a value yields.\<close>

definition py_iter :: "env \<Rightarrow> val \<Rightarrow> error + val list" where
  "py_iter e v =
     (case v of
        VList xs \<Rightarrow> Inr xs
      | VStr s \<Rightarrow> Inr (map (\<lambda>c. VStr [c]) s)
      | VDict d \<Rightarrow> Inr (map VStr (dict_keys e d))
      | _ \<Rightarrow> Inl TypeError)"

text \<open>Lines 267 to 273: the keywords are split by \<^verbatim>\<open>shlex\<close>, or at the blanks when
  \<^verbatim>\<open>shlex\<close> raises, and every term is compiled.\<close>

definition compile_terms :: "env \<Rightarrow> string list \<Rightarrow> error + val list" where
  "compile_terms e ts = map_err (\<lambda>t. case re_compile e t of None \<Rightarrow> Inl ReError | Some r \<Rightarrow> Inr r) ts"

definition keyword_terms :: "env \<Rightarrow> string \<Rightarrow> error + val list" where
  "keyword_terms e s =
     (case shlex_split e s of
        Some ts \<Rightarrow> compile_terms e ts
      | None \<Rightarrow> compile_terms e (split_on CHR '' '' s))"

text \<open>Lines 283 to 289: a clause for each of year, month and quarter that is in the
  filter value. On a list or a string that contains one of the three names the
  subscription \<^verbatim>\<open>reporting_period[part]\<close> raises.\<close>

definition period_clauses :: "val \<Rightarrow> error + val list" where
  "period_clauses v =
     (case v of
        VDict d \<Rightarrow>
          Inr (concat (map (\<lambda>part. case fmlookup d part of
                                     None \<Rightarrow> []
                                   | Some x \<Rightarrow> [dict1 (''reporting_period.'' @ part) x])
                           [''year'', ''month'', ''quarter'']))
      | _ \<Rightarrow>
          (case map_err (\<lambda>part. str_in part v) [''year'', ''month'', ''quarter''] of
             Inl err \<Rightarrow> Inl err
           | Inr bs \<Rightarrow> if True \<in> set bs then Inl TypeError else Inr []))"

text \<open>The names \<^verbatim>\<open>make_query\<close> has a branch for.\<close>

definition filter_names :: "string list" where
  "filter_names =
     [''ids'', ''statuses'', ''status_date'', ''assignees'', ''bdc_assignees'', ''created'',
      ''updated'', ''dealer_ids'', ''organization_id'', ''customer_ids'', ''lead_source'',
      ''lead_channel'', ''lead_direction'', ''sub_status'', ''keywords'', ''assigned_to_bdc'',
      ''reporting_period'', ''stock_type'', ''created_by'', ''pitches'', ''leads'', ''crm_lead_ids'',
      ''credit_applications'']"

text \<open>The body of the loop, lines 174 to 316: the clauses one filter appends.\<close>

definition filter_clauses :: "env \<Rightarrow> string \<Rightarrow> val \<Rightarrow> error + val list" where
  "filter_clauses e filter_type filter_value =
     (if filter_type = ''ids'' then
        Inr [dict1 ''_id'' (dict1 ''$in'' filter_value)]
      else if filter_type = ''statuses'' then
        Inr [dict1 ''status'' (dict1 ''$in'' filter_value)]
      else if filter_type = ''status_date'' then
        (case date_range e filter_value of
           Inl err \<Rightarrow> Inl err
         | Inr date_filter \<Rightarrow>
             Inr [dict1 ''$or'' (VList (map (\<lambda>status.
                    VDict (fmupd (''last_status_change.'' @ str_int status) date_filter
                            (fmupd ''status'' (VInt status) fmempty)))
                  (STATUS_ALL e)))])
      else if filter_type = ''assignees'' then
        (case str_in ''unassigned'' filter_value of
           Inl err \<Rightarrow> Inl err
         | Inr True \<Rightarrow>
             Inr [dict1 ''$and'' (VList
                   [dict1 ''sales_reps'' (dict1 ''$size'' (VInt 0)),
                    dict1 ''customer_reps'' (dict1 ''$size'' (VInt 0)),
                    dict1 ''sales_managers'' (dict1 ''$size'' (VInt 0))])]
         | Inr False \<Rightarrow>
             Inr [dict1 ''$or'' (VList
                   [dict1 ''sales_managers'' (dict1 ''$in'' filter_value),
                    dict1 ''sales_reps'' (dict1 ''$in'' filter_value),
                    dict1 ''customer_reps'' (dict1 ''$in'' filter_value),
                    dict1 ''bdc_reps'' (dict1 ''$in'' filter_value),
                    dict1 ''finance_managers'' (dict1 ''$in'' filter_value)])])
      else if filter_type = ''bdc_assignees'' then
        (case str_in ''unassigned'' filter_value of
           Inl err \<Rightarrow> Inl err
         | Inr True \<Rightarrow> Inr [dict1 ''bdc_reps'' (dict1 ''$size'' (VInt 0))]
         | Inr False \<Rightarrow> Inr [dict1 ''bdc_reps'' (dict1 ''$in'' filter_value)])
      else if filter_type = ''created'' then
        (case date_range e filter_value of
           Inl err \<Rightarrow> Inl err
         | Inr date_filter \<Rightarrow> Inr [dict1 ''created'' date_filter])
      else if filter_type = ''updated'' then
        (case date_range e filter_value of
           Inl err \<Rightarrow> Inl err
         | Inr date_filter \<Rightarrow> Inr [dict1 ''updated'' date_filter])
      else if filter_type = ''dealer_ids'' then
        Inr [dict1 ''dealer_id'' (dict1 ''$in'' filter_value)]
      else if filter_type = ''organization_id'' then
        Inr [dict1 ''organization_id'' filter_value]
      else if filter_type = ''customer_ids'' then
        (case (case filter_value of
                 VStr s \<Rightarrow> Inr (map VStr (split_on CHR '','' s))
               | _ \<Rightarrow> py_iter e filter_value) of
           Inl err \<Rightarrow> Inl err
         | Inr customer_ids \<Rightarrow>
             (case map_err (ObjectId e) customer_ids of
                Inl err \<Rightarrow> Inl err
              | Inr oids \<Rightarrow> Inr [dict1 ''customer_id'' (dict1 ''$in'' (VList oids))]))
      else if filter_type \<in> set [''lead_source'', ''lead_channel'', ''lead_direction''] then
        Inr [dict1 (''marketing.'' @ filter_type) filter_value]
      else if filter_type = ''sub_status'' then
        Inr [dict1 ''sub_status'' filter_value]
      else if filter_type = ''keywords'' then
        (case filter_value of
           VStr s \<Rightarrow>
             (case keyword_terms e s of
                Inl err \<Rightarrow> Inl err
              | Inr terms \<Rightarrow>
                  Inr [dict1 ''$or'' (VList
                        [dict1 ''customer_keywords'' (dict1 ''$in'' (VList terms)),
                         dict1 ''dms_deal.deal_number'' filter_value])])
         | _ \<Rightarrow> Inl AttributeError)
      else if filter_type = ''assigned_to_bdc'' then
        Inr [dict1 ''bdc_reps.0'' (dict1 ''$exists'' filter_value)]
      else if filter_type = ''reporting_period'' then
        period_clauses filter_value
      else if filter_type = ''stock_type'' then
        Inr [dict1 ''stock_type'' filter_value]
      else if filter_type = ''created_by'' then
        Inr [dict1 ''creator'' (dict1 ''$in'' filter_value)]
      else if filter_type = ''pitches'' then
        Inr [dict1 ''pitches'' (dict1 ''$in'' filter_value)]
      else if filter_type = ''leads'' then
        (if \<not> truthy filter_value
         then Inr [dict1 ''leads'' (dict1 ''$eq'' (VList []))]
         else Inr [dict1 ''leads'' (dict1 ''$in'' filter_value)])
      else if filter_type = ''crm_lead_ids'' then
        Inr [dict1 ''crm_lead_ids'' (dict1 ''$in'' filter_value)]
      else if filter_type = ''credit_applications'' then
        Inr [dict1 ''credit_applications'' (dict1 ''$in'' filter_value)]
      else Inr [])"

text \<open>The loop, with the list \<^verbatim>\<open>qry['$and']\<close> built so far.\<close>

fun query_loop :: "env \<Rightarrow> val list \<Rightarrow> (string \<times> val) list \<Rightarrow> error + val list" where
  "query_loop e clauses [] = Inr clauses"
| "query_loop e clauses ((filter_type, filter_value) # filters) =
     (case filter_clauses e filter_type filter_value of
        Inl err \<Rightarrow> Inl err
      | Inr cs \<Rightarrow> query_loop e (clauses @ cs) filters)"

text \<open>Lines 318 to 321: no clause, and the query is the empty dict, which the store
  reads as the query that matches every document.\<close>

definition make_query :: "env \<Rightarrow> (string \<times> val) list \<Rightarrow> error + val" where
  "make_query e filters =
     (case query_loop e [] filters of
        Inl err \<Rightarrow> Inl err
      | Inr clauses \<Rightarrow> Inr (if clauses = [] then VDict fmempty else dict1 ''$and'' (VList clauses)))"

section \<open>The list query\<close>

text \<open>
  \<^verbatim>\<open>_get_opportunities\<close> returns a cursor of the store. The model returns what the cursor
  was built from: the query given to \<^verbatim>\<open>find\<close>, the arguments of \<^verbatim>\<open>skip\<close> and \<^verbatim>\<open>limit\<close>, and
  the list given to \<^verbatim>\<open>sort\<close>. A negative \<^verbatim>\<open>skip\<close> is refused by the driver.
\<close>

record cursor =
  find_query :: val
  cursor_skip :: "int option"
  cursor_limit :: "int option"
  cursor_sort :: "(string \<times> val) list"

definition int_of :: "val \<Rightarrow> int option" where
  "int_of v = (case v of VInt i \<Rightarrow> Some i | VBool b \<Rightarrow> Some (if b then 1 else 0) | _ \<Rightarrow> None)"

text \<open>\<^verbatim>\<open>x.items()[0]\<close>.\<close>

definition first_item :: "env \<Rightarrow> val \<Rightarrow> error + (string \<times> val)" where
  "first_item e x =
     (case x of
        VDict d \<Rightarrow> (case dict_keys e d of [] \<Rightarrow> Inl IndexError | k # _ \<Rightarrow> Inr (k, dict_get d k))
      | _ \<Rightarrow> Inl AttributeError)"

definition paginate :: "val \<Rightarrow> val \<Rightarrow> cursor \<Rightarrow> error + cursor" where
  "paginate page page_size c =
     (if truthy page \<and> truthy page_size then
        (case (int_of page, int_of page_size) of
           (Some p, Some n) \<Rightarrow>
             if n * (p - 1) < 0 then Inl ValueError
             else Inr (c\<lparr>cursor_skip := Some (n * (p - 1)), cursor_limit := Some n\<rparr>)
         | _ \<Rightarrow> Inl TypeError)
      else Inr c)"

definition sort_cursor :: "env \<Rightarrow> val \<Rightarrow> cursor \<Rightarrow> error + cursor" where
  "sort_cursor e sort_by c =
     (if truthy sort_by then
        (case py_iter e sort_by of
           Inl err \<Rightarrow> Inl err
         | Inr xs \<Rightarrow>
             (case map_err (first_item e) xs of
                Inl err \<Rightarrow> Inl err
              | Inr keys \<Rightarrow> Inr (c\<lparr>cursor_sort := keys\<rparr>)))
      else Inr c)"

text \<open>\<^verbatim>\<open>_get_opportunities(filters, sort_by, page, page_size, filter_query)\<close>.\<close>

definition get_opportunities_cursor ::
  "env \<Rightarrow> (string \<times> val) list \<Rightarrow> val \<Rightarrow> val \<Rightarrow> val \<Rightarrow> val \<Rightarrow> error + cursor" where
  "get_opportunities_cursor e filters sort_by page page_size filter_query =
     (case make_query e filters of
        Inl err \<Rightarrow> Inl err
      | Inr query \<Rightarrow>
          if \<not> truthy query then Inl InvalidQuery
          else
            let conditions = [query] @ (if truthy filter_query then [filter_query] else []);
                c = \<lparr>find_query = dict1 ''$and'' (VList conditions), cursor_skip = None,
                     cursor_limit = None, cursor_sort = []\<rparr>
            in (case paginate page page_size c of
                  Inl err \<Rightarrow> Inl err
                | Inr c1 \<Rightarrow> sort_cursor e sort_by c1))"

section \<open>How the store reads a query\<close>

text \<open>
  The document store decides which documents a query matches. For the clauses the
  assignee filters produce, its rules are: a dict of conditions matches when each of them
  does; \<^verbatim>\<open>$and\<close> asks every query of its list to match and \<^verbatim>\<open>$or\<close> at least one;
  \<^verbatim>\<open>{field: {"$size": n}}\<close> asks the field to be an array of \<open>n\<close> elements;
  \<^verbatim>\<open>{field: {"$in": vs}}\<close> asks the field to be one of \<open>vs\<close> or an array with an element
  among \<open>vs\<close>; any other condition is read as equality with the field.
\<close>

definition field_cond :: "doc \<Rightarrow> string \<Rightarrow> val \<Rightarrow> bool" where
  "field_cond d field c =
     (case c of
        VDict op \<Rightarrow>
          (case fmlookup op ''$size'' of
             Some (VInt n) \<Rightarrow>
               (case fmlookup d field of Some (VList xs) \<Rightarrow> int (length xs) = n | _ \<Rightarrow> False)
           | _ \<Rightarrow>
               (case fmlookup op ''$in'' of
                  Some (VList vs) \<Rightarrow>
                    (case fmlookup d field of
                       Some (VList xs) \<Rightarrow> VList xs \<in> set vs \<or> list_ex (\<lambda>x. x \<in> set vs) xs
                     | Some x \<Rightarrow> x \<in> set vs
                     | None \<Rightarrow> False)
                | _ \<Rightarrow> fmlookup d field = Some c))
      | _ \<Rightarrow> fmlookup d field = Some c)"

inductive matches :: "doc \<Rightarrow> val \<Rightarrow> bool" where
  matches_dict:
    "(\<And>k c. fmlookup q k = Some c \<Longrightarrow>
        (k = ''$and'' \<and> (\<exists>qs. c = VList qs \<and> (\<forall>q' \<in> set qs. matches d q'))) \<or>
        (k = ''$or'' \<and> (\<exists>qs. c = VList qs \<and> (\<exists>q' \<in> set qs. matches d q'))) \<or>
        (k \<noteq> ''$and'' \<and> k \<noteq> ''$or'' \<and> field_cond d k c))
     \<Longrightarrow> matches d (VDict q)"

section \<open>update_opportunity_deal_data\<close>

text \<open>The three readings of the clock, one for each sub-field.\<close>

record deal_clock =
  now_comment :: int
  now_frontend :: int
  now_backend :: int

text \<open>
  Lines 390 to 396, and the same for the two gross fields: a true sub-field of the
  incoming data is stamped and merged over the stored one. The stamp is an item
  assignment, which needs a dict; \<^verbatim>\<open>updated_data.get\<close> needs a dict; the stored sub-field
  is the first argument of \<^verbatim>\<open>dict(old, **new)\<close>, a dict or an empty sequence.
\<close>

definition merge_deal_field :: "string \<Rightarrow> int \<Rightarrow> doc \<Rightarrow> val \<Rightarrow> error + val" where
  "merge_deal_field key now data updated_data =
     (if truthy (dict_get data key) then
        (case dict_get data key of
           VDict sub \<Rightarrow>
             (case updated_data of
                VDict ud \<Rightarrow>
                  (case dict_get_default ud key (VDict fmempty) of
                     VDict old \<Rightarrow>
                       Inr (VDict (fmupd key (VDict (old ++\<^sub>f fmupd ''updated'' (VTime now) sub)) ud))
                   | VList [] \<Rightarrow>
                       Inr (VDict (fmupd key (VDict (fmupd ''updated'' (VTime now) sub)) ud))
                   | VStr [] \<Rightarrow>
                       Inr (VDict (fmupd key (VDict (fmupd ''updated'' (VTime now) sub)) ud))
                   | _ \<Rightarrow> Inl TypeError)
              | _ \<Rightarrow> Inl AttributeError)
         | _ \<Rightarrow> Inl TypeError)
      else Inr updated_data)"

definition merge_deal_data :: "deal_clock \<Rightarrow> doc \<Rightarrow> val \<Rightarrow> error + val" where
  "merge_deal_data clk data updated_data =
     (case merge_deal_field ''comment'' (now_comment clk) data updated_data of
        Inl err \<Rightarrow> Inl err
      | Inr u1 \<Rightarrow>
          (case merge_deal_field ''frontend_gross'' (now_frontend clk) data u1 of
             Inl err \<Rightarrow> Inl err
           | Inr u2 \<Rightarrow> merge_deal_field ''backend_gross'' (now_backend clk) data u2))"

text \<open>\<^verbatim>\<open>update_opportunity_deal_data(id, data, field_name)\<close>. The result is \<open>None\<close> when
  the first condition fails and the function ends without a \<^verbatim>\<open>return\<close>.\<close>

definition update_opportunity_deal_data ::
  "env \<Rightarrow> deal_clock \<Rightarrow> state \<Rightarrow> oid \<Rightarrow> doc \<Rightarrow> string \<Rightarrow> state \<times> (error + doc option)" where
  "update_opportunity_deal_data e clk st i data field_name =
     (if data \<noteq> fmempty \<and> field_name \<in> set [''sales_deal'', ''accounting_deal''] then
        (case get_opportunity st i of
           None \<Rightarrow> (st, Inl AttributeError)
         | Some opportunity \<Rightarrow>
             (case merge_deal_data clk data (dict_get_default opportunity field_name (VDict fmempty)) of
                Inl err \<Rightarrow> (st, Inl err)
              | Inr updated_data \<Rightarrow>
                  if truthy updated_data then
                    let delta = dictdelta e opportunity (fmupd field_name updated_data fmempty);
                        opp1 = fmupd field_name updated_data opportunity;
                        st1 = store_set i opp1 st;
                        st2 = send (OpportunityUpdated opp1 delta) st1
                    in (st2, Inr (Some opp1))
                  else (st, Inr (Some opportunity))))
      else (st, Inr None))"

section \<open>Attachments\<close>

text \<open>\<^verbatim>\<open>find_one\<close> with \<^verbatim>\<open>$elemMatch\<close>: the opportunity is found when its \<^verbatim>\<open>attachments\<close>
  hold a document with this \<^verbatim>\<open>_id\<close>.\<close>

definition has_attachment :: "doc \<Rightarrow> val \<Rightarrow> bool" where
  "has_attachment opportunity attachment_id =
     (case fmlookup opportunity ''attachments'' of
        Some (VList xs) \<Rightarrow>
          list_ex (\<lambda>a. case a of VDict d \<Rightarrow> fmlookup d ''_id'' = Some attachment_id | _ \<Rightarrow> False) xs
      | _ \<Rightarrow> False)"

text \<open>\<^verbatim>\<open>self.update_opportunity(opportunity_id, **opportunity)\<close>: the keys of the dict are
  bound to the parameters, so \<^verbatim>\<open>status_date_change\<close> is taken out of the patch and a key
  \<^verbatim>\<open>id\<close> or \<^verbatim>\<open>self\<close> gives a parameter two values.\<close>

definition update_opportunity_with ::
  "env \<Rightarrow> clock \<Rightarrow> state \<Rightarrow> oid \<Rightarrow> doc \<Rightarrow> state \<times> (error + doc)" where
  "update_opportunity_with e clk st i opportunity =
     (if ''id'' |\<in>| fmdom opportunity \<or> ''self'' |\<in>| fmdom opportunity then (st, Inl TypeError)
      else update_opportunity e clk st i (dict_get opportunity ''status_date_change'')
             (fmdrop ''status_date_change'' opportunity))"

text \<open>Lines 648 to 651: the loop over the attachments, with those already seen, those
  to come, and the clock of each call of \<^verbatim>\<open>update_opportunity\<close>.\<close>

fun modify_loop ::
  "env \<Rightarrow> (nat \<Rightarrow> clock) \<Rightarrow> oid \<Rightarrow> val \<Rightarrow> doc \<Rightarrow> val list \<Rightarrow> val list \<Rightarrow> doc \<Rightarrow> state \<Rightarrow>
   state \<times> (error + doc)" where
  "modify_loop e clks i attachment_id kwargs seen [] opportunity st = (st, Inr opportunity)"
| "modify_loop e clks i attachment_id kwargs seen (a # rest) opportunity st =
     (case a of
        VDict attachment \<Rightarrow>
          if py_eq (dict_get attachment ''_id'') attachment_id then
            let a1 = VDict (attachment ++\<^sub>f kwargs);
                opp1 = fmupd ''attachments'' (VList (seen @ a1 # rest)) opportunity
            in (case update_opportunity_with e (clks (length seen)) st i opp1 of
                  (st1, Inl err) \<Rightarrow> (st1, Inl err)
                | (st1, Inr updated) \<Rightarrow>
                    modify_loop e clks i attachment_id kwargs (seen @ [a1]) rest opp1 st1)
          else modify_loop e clks i attachment_id kwargs (seen @ [a]) rest opportunity st
      | _ \<Rightarrow> (st, Inl AttributeError))"

text \<open>\<^verbatim>\<open>modify_attachment(opportunity_id, attachment_id, **kwargs)\<close>.\<close>

definition modify_attachment ::
  "env \<Rightarrow> (nat \<Rightarrow> clock) \<Rightarrow> state \<Rightarrow> val \<Rightarrow> val \<Rightarrow> doc \<Rightarrow> state \<times> (error + doc option)" where
  "modify_attachment e clks st opportunity_id attachment_id kwargs =
     (case ObjectId e opportunity_id of
        Inl err \<Rightarrow> (st, Inl err)
      | Inr (VOid i) \<Rightarrow>
          (case ObjectId e attachment_id of
             Inl err \<Rightarrow> (st, Inl err)
           | Inr aid \<Rightarrow>
               (case store st i of
                  None \<Rightarrow> (st, Inr None)
                | Some opportunity \<Rightarrow>
                    if has_attachment opportunity aid then
                      (case dict_get opportunity ''attachments'' of
                         VList xs \<Rightarrow>
                           (case modify_loop e clks i aid kwargs [] xs opportunity st of
                              (st1, Inl err) \<Rightarrow> (st1, Inl err)
                            | (st1, Inr opp1) \<Rightarrow> (st1, Inr (Some opp1)))
                       | _ \<Rightarrow> (st, Inl TypeError))
                    else (st, Inr None)))
      | Inr _ \<Rightarrow> (st, Inl TypeError))"

text \<open>\<^verbatim>\<open>remove_attachment(opportunity_id, attachment_id)\<close>.\<close>

definition remove_attachment ::
  "env \<Rightarrow> (nat \<Rightarrow> clock) \<Rightarrow> state \<Rightarrow> val \<Rightarrow> val \<Rightarrow> state \<times> (error + doc option)" where
  "remove_attachment e clks st opportunity_id attachment_id =
     (case ObjectId e opportunity_id of
        Inl err \<Rightarrow> (st, Inl err)
      | Inr oid1 \<Rightarrow>
          (case ObjectId e attachment_id of
             Inl err \<Rightarrow> (st, Inl err)
           | Inr aid \<Rightarrow>
               modify_attachment e clks st oid1 aid (fmupd ''deleted'' (VBool True) fmempty)))"

section \<open>Reading the store\<close>

text \<open>A field of the stored document, the dict a value is (empty when it is none), and
  an item of a dict value; \<open>VNone\<close> where there is none, as \<^verbatim>\<open>get\<close> gives.\<close>

definition stored_field :: "state \<Rightarrow> oid \<Rightarrow> string \<Rightarrow> val" where
  "stored_field st i k = (case store st i of None \<Rightarrow> VNone | Some d \<Rightarrow> dict_get d k)"

definition the_dict :: "val \<Rightarrow> doc" where
  "the_dict v = (case v of VDict d \<Rightarrow> d | _ \<Rightarrow> fmempty)"

definition item :: "val \<Rightarrow> string \<Rightarrow> val" where
  "item v k = (case v of VDict d \<Rightarrow> dict_get d k | _ \<Rightarrow> VNone)"

text \<open>\<^verbatim>\<open>opportunity.get('dms_deal', {}).get('deal_number')\<close> of the stored document.\<close>

definition stored_deal_number :: "state \<Rightarrow> oid \<Rightarrow> val" where
  "stored_deal_number st i = item (stored_field st i ''dms_deal'') ''deal_number''"

section \<open>A concrete setting\<close>

text \<open>One choice of the imported parts, a clock and a store with one opportunity, on
  which the functions can be evaluated.\<close>

definition example_env :: env where
  "example_env = \<lparr>
     STATUS_ALL = [0, 1, 2, 3, 4, 5, 6, 7, 8, 9, 10],
     STATUS_PENDING = 3,
     STATUS_FI = 2,
     status_name = (\<lambda>d. dict_get d ''status''),
     assignee_roles = [''sales_reps'', ''sales_managers'', ''customer_reps'', ''bdc_reps'', ''finance_managers''],
     reporting_period = (\<lambda>kw.
       case (fmlookup kw ''year'', fmlookup kw ''month'') of
         (Some (VInt y), Some (VInt m)) \<Rightarrow>
           Inr (VDict (fmap_of_list [(''year'', VInt y), (''month'', VInt m),
                                     (''quarter'', VInt ((m - 1) div 3 + 1))]))
       | _ \<Rightarrow> Inl TypeError),
     get_date_filter = (\<lambda>a b. VDict (fmap_of_list [(''$gte'', a), (''$lte'', b)])),
     dictdelta = (\<lambda>a b. VDict b),
     shlex_split = (\<lambda>s. Some [s]),
     re_compile = (\<lambda>s. Some (VRegex s)),
     object_id = (\<lambda>s. Some s),
     new_object_id = ''new'',
     repr = (\<lambda>v. ''?''),
     dict_keys = (\<lambda>d. [])
   \<rparr>"

definition example_clock :: clock where
  "example_clock = \<lparr>now_status = 100, now_year = 2020, now_month = 5, now_updated = 101\<rparr>"

definition example_opportunity :: doc where
  "example_opportunity = fmap_of_list
     [(''_id'', VOid ''o1''), (''dealer_id'', VInt 10), (''status'', VInt 0),
      (''last_status_change'', VDict (fmap_of_list [(''0'', VTime 50)])),
      (''dms_deal'', VDict (fmap_of_list [(''deal_number'', VStr ''D100'')]))]"

text \<open>An opportunity with a sales deal, and one with two attachments.\<close>

definition example_deal_opportunity :: doc where
  "example_deal_opportunity = fmap_of_list
     [(''_id'', VOid ''o2''),
      (''sales_deal'', VDict (fmap_of_list
         [(''comment'', VDict (fmap_of_list [(''content'', VStr ''hi''), (''updated'', VTime 10)]))]))]"

definition example_deal_state :: state where
  "example_deal_state = \<lparr>store = [''o2'' \<mapsto> example_deal_opportunity], events = []\<rparr>"

definition example_attachment_opportunity :: doc where
  "example_attachment_opportunity = fmap_of_list
     [(''_id'', VOid ''o3''),
      (''attachments'', VList
         [VDict (fmap_of_list [(''_id'', VOid ''a1''), (''deleted'', VBool False)]),
          VDict (fmap_of_list [(''_id'', VOid ''a2''), (''deleted'', VBool False)])])]"

definition example_attachment_state :: state where
  "example_attachment_state = \<lparr>store = [''o3'' \<mapsto> example_attachment_opportunity], events = []\<rparr>"

definition example_deal_clock :: deal_clock where
  "example_deal_clock = \<lparr>now_comment = 200, now_frontend = 201, now_backend = 202\<rparr>"

definition example_state :: state where
  "example_state = \<lparr>store = [''o1'' \<mapsto> example_opportunity], events = []\<rparr>"

(*DEFS-END*)

section \<open>Properties of update_opportunity\<close>

lemma stamp_status_lookup:
  "stamp_status e s t opportunity = Inr opp1 \<Longrightarrow> k \<noteq> ''last_status_change'' \<Longrightarrow>
   fmlookup opp1 k = fmlookup opportunity k"
  by (auto simp: stamp_status_def Let_def split: val.splits if_splits)

lemma default_period_lookup:
  "default_period e clk kwargs = Inr kw1 \<Longrightarrow> k \<noteq> ''reporting_period'' \<Longrightarrow>
   fmlookup kw1 k = fmlookup kwargs k"
  by (auto simp: default_period_def split: if_splits sum.splits)

lemma status_phase_opportunity:
  "status_phase e clk sdc opportunity kwargs = Inr (opp1, kw1, b) \<Longrightarrow> k \<noteq> ''last_status_change'' \<Longrightarrow>
   fmlookup opp1 k = fmlookup opportunity k"
  by (auto simp: status_phase_def Let_def split: if_splits sum.splits dest: stamp_status_lookup)

lemma status_phase_kwargs:
  "status_phase e clk sdc opportunity kwargs = Inr (opp1, kw1, b) \<Longrightarrow>
   k \<noteq> ''status'' \<Longrightarrow> k \<noteq> ''reporting_period'' \<Longrightarrow>
   fmlookup kw1 k = fmlookup kwargs k"
  by (auto simp: status_phase_def Let_def split: if_splits sum.splits dest: default_period_lookup)

lemma store_assignment_signal [simp]: "store (assignment_signal e opportunity kwargs st) = store st"
  by (simp add: assignment_signal_def send_def split: list.splits)




section \<open>Decimal strings\<close>







section \<open>The phases of update_opportunity\<close>

lemma store_send [simp]: "store (send ev st) = store st"
  by (simp add: send_def)

lemma update_opportunity_Inr:
  assumes "update_opportunity e clk st i sdc kwargs = (st', Inr opp')"
  obtains opportunity opp1 kw1 b opp2 kw2 opp3 where
    "kwargs \<noteq> fmempty"
    "get_opportunity st i = Some opportunity"
    "status_phase e clk sdc opportunity kwargs = Inr (opp1, kw1, b)"
    "dealer_locked opp1 kw1 = Inr False"
    "set_deal_number opp1 kw1 = Inr (opp2, kw2)"
    "set_reporting_period e opp2 kw2 = Inr opp3"
    "opp' = stamp_updated clk opp3 kw2 ++\<^sub>f kw2"
    "store st' = (store st)(i \<mapsto> opportunity ++\<^sub>f opp')"
  using assms
  by (auto simp: update_opportunity_def Let_def merge_and_persist_def store_set_def get_opportunity_def
      split: if_splits option.splits sum.splits prod.splits bool.splits)

lemma stamp_status_dom:
  "stamp_status e s t opportunity = Inr opp1 \<Longrightarrow> fmdom opportunity |\<subseteq>| fmdom opp1"
  by (auto simp: stamp_status_def Let_def split: val.splits if_splits)

lemma status_phase_dom:
  "status_phase e clk sdc opportunity kwargs = Inr (opp1, kw1, b) \<Longrightarrow> fmdom opportunity |\<subseteq>| fmdom opp1"
  by (auto simp: status_phase_def Let_def split: if_splits sum.splits dest!: stamp_status_dom)

lemma set_deal_number_dom:
  "set_deal_number opportunity kwargs = Inr (opp1, kw1) \<Longrightarrow> fmdom opportunity |\<subseteq>| fmdom opp1"
  by (auto simp: set_deal_number_def Let_def split: val.splits if_splits)


lemma set_deal_number_kwargs:
  "set_deal_number opportunity kwargs = Inr (opp1, kw1) \<Longrightarrow> kw1 = fmdrop ''deal_number'' kwargs"
  by (auto simp: set_deal_number_def Let_def split: val.splits if_splits)

lemma set_reporting_period_dom:
  "set_reporting_period e opportunity kwargs = Inr opp1 \<Longrightarrow> fmdom opportunity |\<subseteq>| fmdom opp1"
  by (auto simp: set_reporting_period_def split: val.splits if_splits sum.splits)

lemma set_reporting_period_lookup:
  "set_reporting_period e opportunity kwargs = Inr opp1 \<Longrightarrow> k \<noteq> ''reporting_period'' \<Longrightarrow>
   fmlookup opp1 k = fmlookup opportunity k"
  by (auto simp: set_reporting_period_def split: val.splits if_splits sum.splits)

lemma stamp_updated_dom: "fmdom opportunity |\<subseteq>| fmdom (stamp_updated clk opportunity kwargs)"
  by (auto simp: stamp_updated_def)

lemma stamp_updated_lookup:
  "k \<noteq> ''updated'' \<Longrightarrow> fmlookup (stamp_updated clk opportunity kwargs) k = fmlookup opportunity k"
  by (simp add: stamp_updated_def)

lemma fmadd_absorb: "fmdom a |\<subseteq>| fmdom b \<Longrightarrow> a ++\<^sub>f b = b"
  by (rule fmap_ext) (auto simp: fmlookup_dom_iff dest: fmdom_notD)

text \<open>What a successful call returns is what the store holds afterwards.\<close>

lemma update_opportunity_persisted:
  assumes "update_opportunity e clk st i sdc kwargs = (st', Inr opp')"
  shows "store st' = (store st)(i \<mapsto> opp')"
proof -
  from assms obtain opportunity opp1 kw1 b opp2 kw2 opp3 where
    sp: "status_phase e clk sdc opportunity kwargs = Inr (opp1, kw1, b)" and
    dn: "set_deal_number opp1 kw1 = Inr (opp2, kw2)" and
    rp: "set_reporting_period e opp2 kw2 = Inr opp3" and
    opp': "opp' = stamp_updated clk opp3 kw2 ++\<^sub>f kw2" and
    st': "store st' = (store st)(i \<mapsto> opportunity ++\<^sub>f opp')"
    by (rule update_opportunity_Inr)
  have "fmdom opportunity |\<subseteq>| fmdom (stamp_updated clk opp3 kw2)"
    using status_phase_dom [OF sp] set_deal_number_dom [OF dn] set_reporting_period_dom [OF rp]
      stamp_updated_dom [of opp3 clk kw2] by blast
  then have "fmdom opportunity |\<subseteq>| fmdom opp'" unfolding opp' by auto
  then show ?thesis using st' by (simp add: fmadd_absorb)
qed


section \<open>The status history\<close>







section \<open>The deal number\<close>

lemmas update_opportunity_eval =
  update_opportunity_def get_opportunity_def dict_get_def py_eq_def status_phase_def
  status_changes_def coerce_status_def stamp_status_def dict_get_default_def Let_def
  default_period_def dealer_locked_def set_deal_number_def set_reporting_period_def
  merge_and_persist_def assignment_signal_def assignee_keys_def stamp_updated_def store_set_def
  send_def

lemmas example_defs =
  example_env_def example_clock_def example_state_def example_opportunity_def

text \<open>The claim C1 as it is written fails on a patch that brings a \<^verbatim>\<open>dms_deal\<close> of its own:
  the call returns and the stored deal number is replaced.\<close>

theorem deal_number_exclusivity_counterexample:
  "stored_deal_number example_state ''o1'' = VStr ''D100'' \<and>
   \<not> isl (snd (update_opportunity example_env example_clock example_state ''o1'' VNone
              (fmap_of_list [(''dms_deal'', VDict (fmap_of_list [(''deal_number'', VStr ''D200'')]))]))) \<and>
   stored_deal_number
     (fst (update_opportunity example_env example_clock example_state ''o1'' VNone
              (fmap_of_list [(''dms_deal'', VDict (fmap_of_list [(''deal_number'', VStr ''D200'')]))])))
     ''o1'' = VStr ''D200''"
  by (simp add: update_opportunity_eval example_defs stored_deal_number_def stored_field_def item_def)

lemma py_eq_VStr [simp]: "py_eq (VStr n) v \<longleftrightarrow> v = VStr n"
  by (cases v) (auto simp: py_eq_def)

lemma set_deal_number_keeps:
  assumes "set_deal_number opp1 kw1 = Inr (opp2, kw2)"
    and "fmlookup opp1 ''dms_deal'' = Some (VDict d)"
    and "fmlookup d ''deal_number'' = Some (VStr n)" and "n \<noteq> []"
  shows "fmlookup opp2 ''dms_deal'' = Some (VDict d)"
proof -
  have same: "fmupd ''deal_number'' (VStr n) d = d"
    using assms(3) by (intro fmap_ext) auto
  from assms show ?thesis
    by (auto simp: set_deal_number_def Let_def dict_get_default_def dict_get_def same split: if_splits)
qed

lemma set_deal_number_refuses:
  assumes "fmlookup opp1 ''dms_deal'' = Some (VDict d)"
    and "fmlookup d ''deal_number'' = Some (VStr n)" and "n \<noteq> []"
    and "truthy (dict_get kw1 ''deal_number'')" and "dict_get kw1 ''deal_number'' \<noteq> VStr n"
  shows "set_deal_number opp1 kw1 = Inl DealNumberAlreadyAssigned"
  using assms by (auto simp: set_deal_number_def Let_def dict_get_default_def dict_get_def)

lemma update_opportunity_error_store:
  "snd (update_opportunity e clk st i sdc kwargs) = Inl err \<Longrightarrow>
   store (fst (update_opportunity e clk st i sdc kwargs)) = store st"
  by (auto simp: update_opportunity_def Let_def merge_and_persist_def
      split: if_splits option.splits sum.splits prod.splits bool.splits)

lemma update_opportunity_only_deal_number:
  assumes "get_opportunity st i = Some opportunity"
    and "fmlookup opportunity ''dms_deal'' = Some (VDict d)"
    and "fmlookup d ''deal_number'' = Some (VStr n)" and "n \<noteq> []"
  shows "\<exists>st' opp'. update_opportunity e clk st i sdc (fmupd ''deal_number'' (VStr n) fmempty) = (st', Inr opp')"
proof -
  have same: "fmupd ''deal_number'' (VStr n) d = d"
    using assms(3) by (intro fmap_ext) auto
  have ne: "fmupd ''deal_number'' (VStr n) fmempty \<noteq> (fmempty :: doc)"
    by (metis fmdom_empty fmdom_fmupd finsert_not_fempty)
  have sp: "status_phase e clk sdc opportunity (fmupd ''deal_number'' (VStr n) fmempty) =
          Inr (opportunity, fmupd ''deal_number'' (VStr n) fmempty, False)"
    by (simp add: status_phase_def status_changes_def dict_get_def)
  have dl: "dealer_locked opportunity (fmupd ''deal_number'' (VStr n) fmempty) = Inr False"
    by (simp add: dealer_locked_def)
  have same2: "fmupd ''dms_deal'' (VDict d) opportunity = opportunity"
    using assms(2) by (intro fmap_ext) auto
  have drop: "fmdrop ''deal_number'' (fmupd ''deal_number'' (VStr n) fmempty) = (fmempty :: doc)"
    by (intro fmap_ext) auto
  have dn: "set_deal_number opportunity (fmupd ''deal_number'' (VStr n) fmempty) =
          Inr (opportunity, fmempty)"
    using assms(2-4)
    by (simp add: set_deal_number_def dict_get_def dict_get_default_def Let_def same same2 drop)
  have rp: "set_reporting_period e opportunity fmempty = Inr opportunity"
    by (simp add: set_reporting_period_def dict_get_def)
  show ?thesis
    using assms(1) ne sp dl dn rp
    by (simp add: update_opportunity_def Let_def split: prod.splits)
qed

text \<open>
  C1, amended. The opportunity has a non-empty string as \<^verbatim>\<open>dms_deal.deal_number\<close>. When a
  patch without a \<^verbatim>\<open>dms_deal\<close> key is applied and the call returns, the stored deal number
  is as before. A patch with a true \<^verbatim>\<open>deal_number\<close> other than the stored one makes the
  call raise and leaves the store as it is. The patch that brings just the stored
  \<^verbatim>\<open>deal_number\<close> again returns, and the stored deal number is as before.
\<close>

theorem deal_number_exclusivity:
  assumes "get_opportunity st i = Some opportunity"
    and "fmlookup opportunity ''dms_deal'' = Some (VDict dms_deal)"
    and "fmlookup dms_deal ''deal_number'' = Some (VStr n)" and "n \<noteq> []"
  shows "(\<forall>st' opp'. fmlookup kwargs ''dms_deal'' = None \<longrightarrow>
            update_opportunity e clk st i sdc kwargs = (st', Inr opp') \<longrightarrow>
            stored_deal_number st' i = VStr n) \<and>
         (truthy (dict_get kwargs ''deal_number'') \<longrightarrow> dict_get kwargs ''deal_number'' \<noteq> VStr n \<longrightarrow>
            isl (snd (update_opportunity e clk st i sdc kwargs)) \<and>
            store (fst (update_opportunity e clk st i sdc kwargs)) = store st) \<and>
         \<not> isl (snd (update_opportunity e clk st i sdc (fmupd ''deal_number'' (VStr n) fmempty))) \<and>
         stored_deal_number
           (fst (update_opportunity e clk st i sdc (fmupd ''deal_number'' (VStr n) fmempty))) i = VStr n"
proof -
  have keep: "stored_deal_number st' i = VStr n"
    if no: "fmlookup kw ''dms_deal'' = None"
      and r: "update_opportunity e clk st i sdc kw = (st', Inr opp')" for kw st' opp'
  proof -
    from r obtain opportunity' opp1 kw1 b opp2 kw2 opp3 where
      g: "get_opportunity st i = Some opportunity'" and
      sp: "status_phase e clk sdc opportunity' kw = Inr (opp1, kw1, b)" and
      dn: "set_deal_number opp1 kw1 = Inr (opp2, kw2)" and
      rp: "set_reporting_period e opp2 kw2 = Inr opp3" and
      opp': "opp' = stamp_updated clk opp3 kw2 ++\<^sub>f kw2"
      by (rule update_opportunity_Inr)
    from g assms(1) have [simp]: "opportunity' = opportunity" by simp
    have "fmlookup kw1 ''dms_deal'' = None"
      using status_phase_kwargs [OF sp, of "''dms_deal''"] no by simp
    then have kw2: "fmlookup kw2 ''dms_deal'' = None"
      using set_deal_number_kwargs [OF dn] by simp
    have "fmlookup opp1 ''dms_deal'' = Some (VDict dms_deal)"
      using status_phase_opportunity [OF sp, of "''dms_deal''"] assms(2) by simp
    then have "fmlookup opp2 ''dms_deal'' = Some (VDict dms_deal)"
      using set_deal_number_keeps [OF dn _ assms(3,4)] by simp
    then have "fmlookup opp3 ''dms_deal'' = Some (VDict dms_deal)"
      using set_reporting_period_lookup [OF rp, of "''dms_deal''"] by simp
    then have "fmlookup opp' ''dms_deal'' = Some (VDict dms_deal)"
      unfolding opp' using kw2 stamp_updated_lookup [of "''dms_deal''" clk opp3 kw2]
      by (simp add: fmlookup_dom_iff)
    moreover from update_opportunity_persisted [OF r] have "store st' i = Some opp'" by simp
    ultimately show ?thesis
      using assms(3) by (simp add: stored_deal_number_def stored_field_def item_def dict_get_def)
  qed
  have refuse: "isl (snd (update_opportunity e clk st i sdc kwargs)) \<and>
                store (fst (update_opportunity e clk st i sdc kwargs)) = store st"
    if t: "truthy (dict_get kwargs ''deal_number'')" and d: "dict_get kwargs ''deal_number'' \<noteq> VStr n"
  proof -
    have "snd (update_opportunity e clk st i sdc kwargs) \<noteq> Inr opp'" for opp'
    proof
      assume "snd (update_opportunity e clk st i sdc kwargs) = Inr opp'"
      then have "update_opportunity e clk st i sdc kwargs =
                 (fst (update_opportunity e clk st i sdc kwargs), Inr opp')"
        by (metis prod.collapse)
      then obtain opportunity' opp1 kw1 b opp2 kw2 where
        g: "get_opportunity st i = Some opportunity'" and
        sp: "status_phase e clk sdc opportunity' kwargs = Inr (opp1, kw1, b)" and
        dn: "set_deal_number opp1 kw1 = Inr (opp2, kw2)"
        by (rule update_opportunity_Inr)
      from g assms(1) have [simp]: "opportunity' = opportunity" by simp
      have 1: "fmlookup opp1 ''dms_deal'' = Some (VDict dms_deal)"
        using status_phase_opportunity [OF sp, of "''dms_deal''"] assms(2) by simp
      have 2: "dict_get kw1 ''deal_number'' = dict_get kwargs ''deal_number''"
        using status_phase_kwargs [OF sp, of "''deal_number''"] by (simp add: dict_get_def)
      from set_deal_number_refuses [OF 1 assms(3,4)] t d 2 dn show False by simp
    qed
    then obtain err where "snd (update_opportunity e clk st i sdc kwargs) = Inl err"
      by (cases "snd (update_opportunity e clk st i sdc kwargs)") auto
    then show ?thesis using update_opportunity_error_store by fastforce
  qed
  from update_opportunity_only_deal_number [OF assms, of e clk sdc] obtain st' opp' where
    r: "update_opportunity e clk st i sdc (fmupd ''deal_number'' (VStr n) fmempty) = (st', Inr opp')"
    by blast
  have "stored_deal_number st' i = VStr n"
    by (rule keep [OF _ r]) simp
  with r keep refuse show ?thesis by auto
qed

theorem deal_number_exclusivity_witness:
  "stored_deal_number
     (fst (update_opportunity example_env example_clock example_state ''o1'' VNone
            (fmap_of_list [(''sub_status'', VStr ''hot'')]))) ''o1'' = VStr ''D100'' \<and>
   isl (snd (update_opportunity example_env example_clock example_state ''o1'' VNone
            (fmap_of_list [(''deal_number'', VStr ''D200'')]))) \<and>
   store (fst (update_opportunity example_env example_clock example_state ''o1'' VNone
            (fmap_of_list [(''deal_number'', VStr ''D200'')]))) = store example_state \<and>
   \<not> isl (snd (update_opportunity example_env example_clock example_state ''o1'' VNone
            (fmupd ''deal_number'' (VStr ''D100'') fmempty)))"
proof -
  have g: "get_opportunity example_state ''o1'' = Some example_opportunity"
    by (simp add: get_opportunity_def example_state_def)
  have d: "fmlookup example_opportunity ''dms_deal'' =
           Some (VDict (fmap_of_list [(''deal_number'', VStr ''D100'')]))"
    by (simp add: example_opportunity_def)
  have n: "fmlookup (fmap_of_list [(''deal_number'', VStr ''D100'')]) ''deal_number'' = Some (VStr ''D100'')"
    by simp
  have ne: "''D100'' \<noteq> []" by simp
  obtain st' opp' where r:
    "update_opportunity example_env example_clock example_state ''o1'' VNone
       (fmap_of_list [(''sub_status'', VStr ''hot'')]) = (st', Inr opp')"
    by (simp add: update_opportunity_eval example_defs)
  from deal_number_exclusivity [OF g d n ne, of "fmap_of_list [(''sub_status'', VStr ''hot'')]"
      example_env example_clock VNone] r
  have 1: "stored_deal_number st' ''o1'' = VStr ''D100''" by simp
  from deal_number_exclusivity [OF g d n ne, of "fmap_of_list [(''deal_number'', VStr ''D200'')]"
      example_env example_clock VNone]
  have 2: "isl (snd (update_opportunity example_env example_clock example_state ''o1'' VNone
            (fmap_of_list [(''deal_number'', VStr ''D200'')]))) \<and>
   store (fst (update_opportunity example_env example_clock example_state ''o1'' VNone
            (fmap_of_list [(''deal_number'', VStr ''D200'')]))) = store example_state \<and>
   \<not> isl (snd (update_opportunity example_env example_clock example_state ''o1'' VNone
            (fmupd ''deal_number'' (VStr ''D100'') fmempty)))"
    by (simp add: dict_get_def)
  from 1 2 r show ?thesis by simp
qed

section \<open>The reporting period\<close>

text \<open>Whatever the helper computes, the reporting period that a returning call stores is
  the value of the patch: line 500 merges the patch over the value line 492 has set.\<close>

lemma patched_reporting_period_is_stored:
  assumes "update_opportunity e clk st i sdc kwargs = (st', Inr opp')"
    and "fmlookup kwargs ''reporting_period'' = Some period" and "period \<noteq> VNone"
  shows "store st' i = Some opp' \<and> fmlookup opp' ''reporting_period'' = Some period"
proof -
  from assms(1) obtain opportunity opp1 kw1 b opp2 kw2 opp3 where
    sp: "status_phase e clk sdc opportunity kwargs = Inr (opp1, kw1, b)" and
    dn: "set_deal_number opp1 kw1 = Inr (opp2, kw2)" and
    opp': "opp' = stamp_updated clk opp3 kw2 ++\<^sub>f kw2"
    by (rule update_opportunity_Inr)
  from sp assms(2,3) have "fmlookup kw1 ''reporting_period'' = Some period"
    by (auto simp: status_phase_def Let_def default_period_def dict_get_def
        split: if_splits sum.splits)
  then have "fmlookup kw2 ''reporting_period'' = Some period"
    using set_deal_number_kwargs [OF dn] by simp
  then have "fmlookup opp' ''reporting_period'' = Some period"
    unfolding opp' by (simp add: fmlookup_dom_iff)
  with update_opportunity_persisted [OF assms(1)] show ?thesis by simp
qed

text \<open>
  C7 on a concrete call. The patch is \<^verbatim>\<open>{reporting_period: {year: 2020, month: 5}}\<close>. The
  helper derives the quarter, the call returns, and the stored reporting period is the
  patch value, which has no quarter.
\<close>

theorem patched_reporting_period_loses_quarter:
  "reporting_period example_env (fmap_of_list [(''year'', VInt 2020), (''month'', VInt 5)]) =
     Inr (VDict (fmap_of_list [(''year'', VInt 2020), (''month'', VInt 5), (''quarter'', VInt 2)])) \<and>
   \<not> isl (snd (update_opportunity example_env example_clock example_state ''o1'' VNone
              (fmap_of_list [(''reporting_period'',
                 VDict (fmap_of_list [(''year'', VInt 2020), (''month'', VInt 5)]))]))) \<and>
   stored_field
     (fst (update_opportunity example_env example_clock example_state ''o1'' VNone
              (fmap_of_list [(''reporting_period'',
                 VDict (fmap_of_list [(''year'', VInt 2020), (''month'', VInt 5)]))]))) ''o1''
     ''reporting_period'' = VDict (fmap_of_list [(''year'', VInt 2020), (''month'', VInt 5)]) \<and>
   item (VDict (fmap_of_list [(''year'', VInt 2020), (''month'', VInt 5)])) ''quarter'' = VNone"
  by (simp add: update_opportunity_eval example_defs stored_field_def item_def)

section \<open>The filter compiler\<close>

lemma filter_clauses_unknown:
  "filter_type \<notin> set filter_names \<Longrightarrow> filter_clauses e filter_type filter_value = Inr []"
  by (simp add: filter_names_def filter_clauses_def)

lemma query_loop_append:
  "query_loop e clauses (fs @ gs) =
     (case query_loop e clauses fs of Inl err \<Rightarrow> Inl err | Inr cs \<Rightarrow> query_loop e cs gs)"
  by (induction fs arbitrary: clauses) (auto split: sum.splits)

text \<open>
  C9, filters the compiler does not know. The items of the filter dict are a list in the
  order of the iteration. An item whose name is none of those \<^verbatim>\<open>make_query\<close> has a branch
  for can be put anywhere among them: the result, a query or an exception, is the same
  as without it.
\<close>

theorem unknown_filter_ignored:
  assumes "k \<notin> set filter_names"
  shows "make_query e (fs @ (k, v) # gs) = make_query e (fs @ gs)"
  using assms
  by (simp add: make_query_def query_loop_append filter_clauses_unknown split: sum.splits)

theorem unknown_filter_ignored_witness:
  "make_query example_env [(''ids'', VList [VOid ''a'']), (''colour'', VStr ''red''), (''sub_status'', VStr ''hot'')] =
   make_query example_env [(''ids'', VList [VOid ''a'']), (''sub_status'', VStr ''hot'')] \<and>
   make_query example_env [(''ids'', VList [VOid ''a'']), (''sub_status'', VStr ''hot'')] =
     Inr (dict1 ''$and'' (VList [dict1 ''_id'' (dict1 ''$in'' (VList [VOid ''a''])),
                                  dict1 ''sub_status'' (VStr ''hot'')]))"
  using unknown_filter_ignored [of "''colour''" example_env "[(''ids'', VList [VOid ''a''])]"
      "VStr ''red''" "[(''sub_status'', VStr ''hot'')]"]
  by (simp add: filter_names_def make_query_def filter_clauses_def)

text \<open>The claim C6 as it is written fails: the list query on the empty filter dict raises.\<close>

theorem empty_filter_counterexample:
  "get_opportunities_cursor example_env [] VNone VNone VNone VNone = Inl InvalidQuery"
  by (simp add: get_opportunities_cursor_def make_query_def)

text \<open>
  C6, amended. \<^verbatim>\<open>make_query\<close> of the empty filter dict returns the empty query, which
  matches every document, and raises nothing; \<^verbatim>\<open>_get_opportunities\<close> on the empty filter dict
  raises the invalid-query \<^verbatim>\<open>ValueError\<close>, whatever its other arguments are.
\<close>

theorem empty_filter:
  "make_query e [] = Inr (VDict fmempty) \<and>
   get_opportunities_cursor e [] sort_by page page_size filter_query = Inl InvalidQuery"
  by (simp add: get_opportunities_cursor_def make_query_def)

section \<open>The assignee filter\<close>

lemma matches_iff:
  "matches d (VDict q) \<longleftrightarrow>
     (\<forall>k c. fmlookup q k = Some c \<longrightarrow>
        (k = ''$and'' \<and> (\<exists>qs. c = VList qs \<and> (\<forall>q' \<in> set qs. matches d q'))) \<or>
        (k = ''$or'' \<and> (\<exists>qs. c = VList qs \<and> (\<exists>q' \<in> set qs. matches d q'))) \<or>
        (k \<noteq> ''$and'' \<and> k \<noteq> ''$or'' \<and> field_cond d k c))"
  by (subst matches.simps) auto

lemma matches_all: "matches d (VDict fmempty)"
  by (simp add: matches_iff)

lemma matches_and: "matches d (dict1 ''$and'' (VList qs)) \<longleftrightarrow> (\<forall>q \<in> set qs. matches d q)"
  by (auto simp: dict1_def matches_iff split: if_splits)

lemma matches_or: "matches d (dict1 ''$or'' (VList qs)) \<longleftrightarrow> (\<exists>q \<in> set qs. matches d q)"
  by (auto simp: dict1_def matches_iff split: if_splits)

lemma matches_field:
  "k \<noteq> ''$and'' \<Longrightarrow> k \<noteq> ''$or'' \<Longrightarrow> matches d (dict1 k c) \<longleftrightarrow> field_cond d k c"
  by (auto simp: dict1_def matches_iff split: if_splits)

lemma field_cond_size0:
  "field_cond d k (dict1 ''$size'' (VInt 0)) \<longleftrightarrow> fmlookup d k = Some (VList [])"
  by (auto simp: field_cond_def dict1_def split: option.splits val.splits)

lemma field_cond_in:
  "field_cond d k (dict1 ''$in'' (VList vs)) \<longleftrightarrow>
     (case fmlookup d k of
        Some (VList xs) \<Rightarrow> VList xs \<in> set vs \<or> (\<exists>x \<in> set xs. x \<in> set vs)
      | Some x \<Rightarrow> x \<in> set vs
      | None \<Rightarrow> False)"
  by (auto simp: field_cond_def dict1_def list_ex_iff split: option.splits val.splits)

lemma make_query_unassigned:
  "VStr ''unassigned'' \<in> set vs \<Longrightarrow>
   make_query e [(''assignees'', VList vs)] =
     Inr (dict1 ''$and'' (VList [dict1 ''$and'' (VList
            [dict1 ''sales_reps'' (dict1 ''$size'' (VInt 0)),
             dict1 ''customer_reps'' (dict1 ''$size'' (VInt 0)),
             dict1 ''sales_managers'' (dict1 ''$size'' (VInt 0))])]))"
  by (simp add: make_query_def filter_clauses_def str_in_def)

lemma make_query_assignees:
  "VStr ''unassigned'' \<notin> set vs \<Longrightarrow>
   make_query e [(''assignees'', VList vs)] =
     Inr (dict1 ''$and'' (VList [dict1 ''$or'' (VList
            [dict1 ''sales_managers'' (dict1 ''$in'' (VList vs)),
             dict1 ''sales_reps'' (dict1 ''$in'' (VList vs)),
             dict1 ''customer_reps'' (dict1 ''$in'' (VList vs)),
             dict1 ''bdc_reps'' (dict1 ''$in'' (VList vs)),
             dict1 ''finance_managers'' (dict1 ''$in'' (VList vs))])]))"
  by (simp add: make_query_def filter_clauses_def str_in_def)

text \<open>The claim C5 as it is written fails: the query compiled for \<^verbatim>\<open>["unassigned"]\<close> matches
  an opportunity that has a BDC representative.\<close>

theorem unassigned_filter_counterexample:
  "make_query example_env [(''assignees'', VList [VStr ''unassigned''])] =
     Inr (dict1 ''$and'' (VList [dict1 ''$and'' (VList
            [dict1 ''sales_reps'' (dict1 ''$size'' (VInt 0)),
             dict1 ''customer_reps'' (dict1 ''$size'' (VInt 0)),
             dict1 ''sales_managers'' (dict1 ''$size'' (VInt 0))])])) \<and>
   matches (fmap_of_list [(''sales_reps'', VList []), (''customer_reps'', VList []),
                          (''sales_managers'', VList []), (''bdc_reps'', VList [VStr ''bob'']),
                          (''finance_managers'', VList [])])
     (dict1 ''$and'' (VList [dict1 ''$and'' (VList
            [dict1 ''sales_reps'' (dict1 ''$size'' (VInt 0)),
             dict1 ''customer_reps'' (dict1 ''$size'' (VInt 0)),
             dict1 ''sales_managers'' (dict1 ''$size'' (VInt 0))])])) \<and>
   fmlookup (fmap_of_list [(''sales_reps'', VList []), (''customer_reps'', VList []),
                          (''sales_managers'', VList []), (''bdc_reps'', VList [VStr ''bob'']),
                          (''finance_managers'', VList [])]) ''bdc_reps'' \<noteq> Some (VList [])"
  by (simp add: make_query_unassigned matches_and matches_field field_cond_size0)

text \<open>
  C5, amended. For assignees that contain \<^verbatim>\<open>"unassigned"\<close> the compiled query matches
  exactly the opportunities whose \<^verbatim>\<open>sales_reps\<close>, \<^verbatim>\<open>customer_reps\<close> and \<^verbatim>\<open>sales_managers\<close> are
  empty; \<^verbatim>\<open>bdc_reps\<close> and \<^verbatim>\<open>finance_managers\<close> are not looked at. For assignees that are
  other strings it matches exactly the opportunities that have one of the values in one
  of the five sets.
\<close>

theorem unassigned_filter:
  "(VStr ''unassigned'' \<in> set vs \<longrightarrow>
      (\<exists>q. make_query e [(''assignees'', VList vs)] = Inr q \<and>
           (\<forall>d. matches d q \<longleftrightarrow>
                  fmlookup d ''sales_reps'' = Some (VList []) \<and>
                  fmlookup d ''customer_reps'' = Some (VList []) \<and>
                  fmlookup d ''sales_managers'' = Some (VList [])))) \<and>
   (VStr ''unassigned'' \<notin> set vs \<longrightarrow> (\<forall>v \<in> set vs. \<exists>s. v = VStr s) \<longrightarrow>
      (\<exists>q. make_query e [(''assignees'', VList vs)] = Inr q \<and>
           (\<forall>d. (\<forall>f \<in> set [''sales_managers'', ''sales_reps'', ''customer_reps'', ''bdc_reps'',
                             ''finance_managers''].
                     fmlookup d f = None \<or> (\<exists>xs. fmlookup d f = Some (VList xs))) \<longrightarrow>
                (matches d q \<longleftrightarrow>
                   (\<exists>f \<in> set [''sales_managers'', ''sales_reps'', ''customer_reps'', ''bdc_reps'',
                               ''finance_managers''].
                      \<exists>xs. fmlookup d f = Some (VList xs) \<and> (\<exists>x \<in> set xs. x \<in> set vs))))))"
proof (intro conjI impI)
  assume u: "VStr ''unassigned'' \<in> set vs"
  show "\<exists>q. make_query e [(''assignees'', VList vs)] = Inr q \<and>
           (\<forall>d. matches d q \<longleftrightarrow>
                  fmlookup d ''sales_reps'' = Some (VList []) \<and>
                  fmlookup d ''customer_reps'' = Some (VList []) \<and>
                  fmlookup d ''sales_managers'' = Some (VList []))"
    by (simp add: make_query_unassigned [OF u] matches_and matches_field field_cond_size0)
next
  assume u: "VStr ''unassigned'' \<notin> set vs" and strs: "\<forall>v \<in> set vs. \<exists>s. v = VStr s"
  have c: "field_cond d f (dict1 ''$in'' (VList vs)) \<longleftrightarrow>
           (\<exists>xs. fmlookup d f = Some (VList xs) \<and> (\<exists>x \<in> set xs. x \<in> set vs))"
    if "fmlookup d f = None \<or> (\<exists>xs. fmlookup d f = Some (VList xs))" for d f
    using that strs by (auto simp: field_cond_in)
  show "\<exists>q. make_query e [(''assignees'', VList vs)] = Inr q \<and>
           (\<forall>d. (\<forall>f \<in> set [''sales_managers'', ''sales_reps'', ''customer_reps'', ''bdc_reps'',
                             ''finance_managers''].
                     fmlookup d f = None \<or> (\<exists>xs. fmlookup d f = Some (VList xs))) \<longrightarrow>
                (matches d q \<longleftrightarrow>
                   (\<exists>f \<in> set [''sales_managers'', ''sales_reps'', ''customer_reps'', ''bdc_reps'',
                               ''finance_managers''].
                      \<exists>xs. fmlookup d f = Some (VList xs) \<and> (\<exists>x \<in> set xs. x \<in> set vs))))"
    by (simp add: make_query_assignees [OF u] matches_and matches_or matches_field c)
qed

theorem unassigned_filter_witness:
  "make_query example_env [(''assignees'', VList [VStr ''unassigned''])] =
     Inr (dict1 ''$and'' (VList [dict1 ''$and'' (VList
            [dict1 ''sales_reps'' (dict1 ''$size'' (VInt 0)),
             dict1 ''customer_reps'' (dict1 ''$size'' (VInt 0)),
             dict1 ''sales_managers'' (dict1 ''$size'' (VInt 0))])])) \<and>
   matches (fmap_of_list [(''sales_reps'', VList []), (''customer_reps'', VList []),
                          (''sales_managers'', VList [])])
     (dict1 ''$and'' (VList [dict1 ''$and'' (VList
            [dict1 ''sales_reps'' (dict1 ''$size'' (VInt 0)),
             dict1 ''customer_reps'' (dict1 ''$size'' (VInt 0)),
             dict1 ''sales_managers'' (dict1 ''$size'' (VInt 0))])])) \<and>
   make_query example_env [(''assignees'', VList [VStr ''bob''])] =
     Inr (dict1 ''$and'' (VList [dict1 ''$or'' (VList
            [dict1 ''sales_managers'' (dict1 ''$in'' (VList [VStr ''bob''])),
             dict1 ''sales_reps'' (dict1 ''$in'' (VList [VStr ''bob''])),
             dict1 ''customer_reps'' (dict1 ''$in'' (VList [VStr ''bob''])),
             dict1 ''bdc_reps'' (dict1 ''$in'' (VList [VStr ''bob''])),
             dict1 ''finance_managers'' (dict1 ''$in'' (VList [VStr ''bob'']))])])) \<and>
   matches (fmap_of_list [(''sales_reps'', VList []), (''bdc_reps'', VList [VStr ''al'', VStr ''bob''])])
     (dict1 ''$and'' (VList [dict1 ''$or'' (VList
            [dict1 ''sales_managers'' (dict1 ''$in'' (VList [VStr ''bob''])),
             dict1 ''sales_reps'' (dict1 ''$in'' (VList [VStr ''bob''])),
             dict1 ''customer_reps'' (dict1 ''$in'' (VList [VStr ''bob''])),
             dict1 ''bdc_reps'' (dict1 ''$in'' (VList [VStr ''bob''])),
             dict1 ''finance_managers'' (dict1 ''$in'' (VList [VStr ''bob'']))])]))"
proof -
  let ?d1 = "fmap_of_list [(''sales_reps'', VList []), (''customer_reps'', VList []),
                          (''sales_managers'', VList [])] :: doc"
  let ?d2 = "fmap_of_list [(''sales_reps'', VList []), (''bdc_reps'', VList [VStr ''al'', VStr ''bob''])] :: doc"
  have q1: "make_query example_env [(''assignees'', VList [VStr ''unassigned''])] =
     Inr (dict1 ''$and'' (VList [dict1 ''$and'' (VList
            [dict1 ''sales_reps'' (dict1 ''$size'' (VInt 0)),
             dict1 ''customer_reps'' (dict1 ''$size'' (VInt 0)),
             dict1 ''sales_managers'' (dict1 ''$size'' (VInt 0))])]))"
    by (simp add: make_query_def filter_clauses_def str_in_def)
  have q2: "make_query example_env [(''assignees'', VList [VStr ''bob''])] =
     Inr (dict1 ''$and'' (VList [dict1 ''$or'' (VList
            [dict1 ''sales_managers'' (dict1 ''$in'' (VList [VStr ''bob''])),
             dict1 ''sales_reps'' (dict1 ''$in'' (VList [VStr ''bob''])),
             dict1 ''customer_reps'' (dict1 ''$in'' (VList [VStr ''bob''])),
             dict1 ''bdc_reps'' (dict1 ''$in'' (VList [VStr ''bob''])),
             dict1 ''finance_managers'' (dict1 ''$in'' (VList [VStr ''bob'']))])]))"
    by (simp add: make_query_def filter_clauses_def str_in_def)
  from unassigned_filter [of "[VStr ''unassigned'']" example_env] q1
  have "\<forall>d. matches d (dict1 ''$and'' (VList [dict1 ''$and'' (VList
            [dict1 ''sales_reps'' (dict1 ''$size'' (VInt 0)),
             dict1 ''customer_reps'' (dict1 ''$size'' (VInt 0)),
             dict1 ''sales_managers'' (dict1 ''$size'' (VInt 0))])])) \<longleftrightarrow>
                  fmlookup d ''sales_reps'' = Some (VList []) \<and>
                  fmlookup d ''customer_reps'' = Some (VList []) \<and>
                  fmlookup d ''sales_managers'' = Some (VList [])"
    by simp
  then have m1: "matches ?d1 (dict1 ''$and'' (VList [dict1 ''$and'' (VList
            [dict1 ''sales_reps'' (dict1 ''$size'' (VInt 0)),
             dict1 ''customer_reps'' (dict1 ''$size'' (VInt 0)),
             dict1 ''sales_managers'' (dict1 ''$size'' (VInt 0))])]))"
    by simp
  from unassigned_filter [of "[VStr ''bob'']" example_env] q2
  have "\<forall>d. (\<forall>f \<in> set [''sales_managers'', ''sales_reps'', ''customer_reps'', ''bdc_reps'',
                             ''finance_managers''].
                     fmlookup d f = None \<or> (\<exists>xs. fmlookup d f = Some (VList xs))) \<longrightarrow>
                (matches d (dict1 ''$and'' (VList [dict1 ''$or'' (VList
            [dict1 ''sales_managers'' (dict1 ''$in'' (VList [VStr ''bob''])),
             dict1 ''sales_reps'' (dict1 ''$in'' (VList [VStr ''bob''])),
             dict1 ''customer_reps'' (dict1 ''$in'' (VList [VStr ''bob''])),
             dict1 ''bdc_reps'' (dict1 ''$in'' (VList [VStr ''bob''])),
             dict1 ''finance_managers'' (dict1 ''$in'' (VList [VStr ''bob'']))])])) \<longleftrightarrow>
                   (\<exists>f \<in> set [''sales_managers'', ''sales_reps'', ''customer_reps'', ''bdc_reps'',
                               ''finance_managers''].
                      \<exists>xs. fmlookup d f = Some (VList xs) \<and> (\<exists>x \<in> set xs. x \<in> set [VStr ''bob''])))"
    by simp
  from this [rule_format, of ?d2]
  have m2: "matches ?d2 (dict1 ''$and'' (VList [dict1 ''$or'' (VList
            [dict1 ''sales_managers'' (dict1 ''$in'' (VList [VStr ''bob''])),
             dict1 ''sales_reps'' (dict1 ''$in'' (VList [VStr ''bob''])),
             dict1 ''customer_reps'' (dict1 ''$in'' (VList [VStr ''bob''])),
             dict1 ''bdc_reps'' (dict1 ''$in'' (VList [VStr ''bob''])),
             dict1 ''finance_managers'' (dict1 ''$in'' (VList [VStr ''bob'']))])]))"
    by simp
  from q1 m1 q2 m2 show ?thesis by blast
qed

end
